theory Spec2Isabelle
  imports Main
begin

section \<open>Smart Energy Tracker: the Flask application of \<^verbatim>\<open>src/main.py\<close>\<close>

text \<open>
  The program is a Flask application over one SQLite table. It has three helpers
  (\<^verbatim>\<open>init_db\<close>, \<^verbatim>\<open>insert_data\<close>, \<^verbatim>\<open>get_data\<close>) and two routes with logic
  (\<^verbatim>\<open>submit\<close>, \<^verbatim>\<open>visualize\<close>). The embedding passes the state of the world (the
  table, the clock, the chart file, what was printed and which SQL statements were
  executed) explicitly; an exception is a value of type \<open>exn\<close>, and every
  \<^verbatim>\<open>try\<close>/\<^verbatim>\<open>except\<close> of the source is a case distinction on it.
\<close>

subsection \<open>Exceptions\<close>

text \<open>
  The classes the source's \<^verbatim>\<open>except\<close> clauses tell apart: \<^verbatim>\<open>sqlite3.Error\<close> (with
  its subclasses), \<^verbatim>\<open>ValueError\<close>, the \<^verbatim>\<open>KeyError\<close> that \<^verbatim>\<open>request.form[...]\<close>
  raises for a missing field (werkzeug's \<^verbatim>\<open>BadRequestKeyError\<close>),
  \<^verbatim>\<open>pandas.errors.DatabaseError\<close> (a subclass of \<^verbatim>\<open>OSError\<close>, not of
  \<^verbatim>\<open>sqlite3.Error\<close>), and any other subclass of \<^verbatim>\<open>Exception\<close>.
\<close>

datatype sqlite3_error = OperationalError | IntegrityError | OtherDatabaseError

datatype exn =
    Sqlite3Error sqlite3_error
  | ValueError
  | BadRequestKeyError string
  | PandasDatabaseError
  | OtherException

fun is_sqlite3_error :: "exn \<Rightarrow> bool" where
  "is_sqlite3_error (Sqlite3Error k) = True"
| "is_sqlite3_error e = False"

fun is_value_error :: "exn \<Rightarrow> bool" where
  "is_value_error ValueError = True"
| "is_value_error e = False"

subsection \<open>Python's \<^verbatim>\<open>float(str)\<close>\<close>

text \<open>
  \<^verbatim>\<open>submit\<close> validates its input with \<^verbatim>\<open>float(request.form['usage'])\<close>. The
  model follows CPython's grammar for \<^verbatim>\<open>float\<close> of a string: surrounding white space
  is stripped; an underscore may stand between two digits; what remains is an optional
  sign followed by \<^verbatim>\<open>inf\<close>, \<^verbatim>\<open>infinity\<close> or \<^verbatim>\<open>nan\<close> in any letter case, or a
  decimal literal (digits, an optional point, an optional exponent) with at least one
  digit in the mantissa. Anything else raises \<^verbatim>\<open>ValueError\<close> (here \<open>None\<close>).

  A \<open>char\<close> is a code point below 256. Among these the white space of \<^verbatim>\<open>float\<close> is
  tab, line feed, vertical tab, form feed, carriage return, space, NEL (0x85) and the
  no-break space (0xA0). Code points from 256 on (among them the other Unicode decimal
  digits, which \<^verbatim>\<open>float\<close> accepts as well) are outside the type \<open>string\<close>.

  The value of a decimal literal is kept as the literal denotes it, \<open>Decimal neg m e\<close>
  for \<open>(-1)^neg * m * 10^e\<close>; the rounding to a binary64 (which may overflow to an
  infinity) is not modelled. No claim depends on it.
\<close>

datatype pyfloat = Decimal bool nat int | Inf bool | NaN

definition is_space :: "char \<Rightarrow> bool" where
  "is_space c = (c \<in> set [CHR 0x09, CHR 0x0A, CHR 0x0B, CHR 0x0C, CHR 0x0D, CHR '' '',
                            CHR 0x85, CHR 0xA0])"

definition is_digit :: "char \<Rightarrow> bool" where
  "is_digit c = (c \<in> set ''0123456789'')"

definition strip :: "string \<Rightarrow> string" where
  "strip s = rev (dropWhile is_space (rev (dropWhile is_space s)))"

text \<open>
  Underscores (\<^verbatim>\<open>_Py_string_to_number_with_underscores\<close>): one is allowed only
  after a digit and only before a digit; \<open>prev\<close> is the character before.
\<close>

fun underscores_ok :: "char \<Rightarrow> string \<Rightarrow> bool" where
  "underscores_ok prev [] = (prev \<noteq> CHR ''_'')"
| "underscores_ok prev (c # cs) =
     (if c = CHR ''_'' then is_digit prev \<and> underscores_ok c cs
      else if prev = CHR ''_'' then is_digit c \<and> underscores_ok c cs
      else underscores_ok c cs)"

definition remove_underscores :: "string \<Rightarrow> string option" where
  "remove_underscores s =
     (if underscores_ok (CHR 0x00) s then Some (filter (\<lambda>c. c \<noteq> CHR ''_'') s) else None)"

definition lower :: "char \<Rightarrow> char" where
  "lower c =
     (if c \<in> set ''ABCDEFGHIJKLMNOPQRSTUVWXYZ'' then char_of (of_char c + (32::nat)) else c)"

text \<open>An optional sign: whether it is a minus, and the rest.\<close>

fun take_sign :: "string \<Rightarrow> bool \<times> string" where
  "take_sign [] = (False, [])"
| "take_sign (c # cs) =
     (if c = CHR ''-'' then (True, cs)
      else if c = CHR ''+'' then (False, cs)
      else (False, c # cs))"

definition parse_inf_or_nan :: "string \<Rightarrow> pyfloat option" where
  "parse_inf_or_nan s =
     (let (neg, r) = take_sign s; l = map lower r in
      if l = ''inf'' \<or> l = ''infinity'' then Some (Inf neg)
      else if l = ''nan'' then Some NaN
      else None)"

definition digit_val :: "char \<Rightarrow> nat" where
  "digit_val c = of_char c - 48"

definition digits_val :: "string \<Rightarrow> nat" where
  "digits_val ds = foldl (\<lambda>a c. 10 * a + digit_val c) 0 ds"

text \<open>
  The exponent: \<^verbatim>\<open>e\<close> or \<^verbatim>\<open>E\<close>, an optional sign and at least one digit, up to
  the end of the string.
\<close>

definition parse_exponent :: "string \<Rightarrow> int option" where
  "parse_exponent s =
     (case s of
        [] \<Rightarrow> Some 0
      | c # cs \<Rightarrow>
          if c = CHR ''e'' \<or> c = CHR ''E'' then
            (let (neg, ds) = take_sign cs in
             if ds \<noteq> [] \<and> list_all is_digit ds
             then Some (if neg then - int (digits_val ds) else int (digits_val ds))
             else None)
          else None)"

definition parse_decimal :: "string \<Rightarrow> pyfloat option" where
  "parse_decimal s =
     (let (neg, r) = take_sign s;
          ip = takeWhile is_digit r;
          r1 = dropWhile is_digit r;
          has_point = (r1 \<noteq> [] \<and> hd r1 = CHR ''.'');
          fp = (if has_point then takeWhile is_digit (tl r1) else []);
          r2 = (if has_point then dropWhile is_digit (tl r1) else r1)
      in if ip = [] \<and> fp = [] then None
         else (case parse_exponent r2 of
                 None \<Rightarrow> None
               | Some e \<Rightarrow> Some (Decimal neg (digits_val (ip @ fp)) (e - int (length fp)))))"

text \<open>
  The steps in CPython's order: the underscores are checked and removed on the whole
  string, then the white space at both ends is stripped, then \<^verbatim>\<open>inf\<close> and
  \<^verbatim>\<open>nan\<close> are tried before the decimal literal.
\<close>

definition py_float :: "string \<Rightarrow> pyfloat option" where
  "py_float s =
     (case remove_underscores s of
        None \<Rightarrow> None
      | Some t \<Rightarrow>
          (case parse_inf_or_nan (strip t) of
             Some v \<Rightarrow> Some v
           | None \<Rightarrow> parse_decimal (strip t)))"

subsection \<open>The store: the table \<^verbatim>\<open>energy_usage\<close>\<close>

text \<open>
  \<^verbatim>\<open>
  CREATE TABLE IF NOT EXISTS energy_usage (
      id INTEGER PRIMARY KEY AUTOINCREMENT,
      timestamp DATETIME DEFAULT CURRENT_TIMESTAMP,
      usage FLOAT NOT NULL)
  \<close>
  A row is a \<open>reading\<close>. The column \<^verbatim>\<open>timestamp\<close> holds a text,
  \<^verbatim>\<open>YYYY-MM-DD HH:MM:SS\<close> (\<^verbatim>\<open>-YYYY-MM-DD HH:MM:SS\<close> for a year before 0); the model
  keeps the instant that the text denotes, as the number of seconds from the Unix
  epoch (UTC), between Julian day 0 and the end of the year 9999. SQLite compares the
  texts, not the instants: see \<open>text_le\<close> below.
  The table is the list of its rows in rowid order, the order in which a scan
  returns them; \<open>seq\<close> is the entry of \<^verbatim>\<open>sqlite_sequence\<close> that
  \<^verbatim>\<open>AUTOINCREMENT\<close> keeps: the largest rowid ever given out.
\<close>

record reading =
  rid :: int
  timestamp :: int
  usage :: pyfloat

record energy_db =
  rows :: "reading list"
  seq :: int

definition empty_db :: energy_db where
  "empty_db = \<lparr>rows = [], seq = 0\<rparr>"

text \<open>
  \<^verbatim>\<open>init_db\<close>: the table is created if it does not exist (\<open>None\<close>), and left as
  it is otherwise.
\<close>

fun init_db :: "energy_db option \<Rightarrow> energy_db" where
  "init_db None = empty_db"
| "init_db (Some d) = d"

definition max_rowid :: int where
  "max_rowid = 9223372036854775807"

definition largest_rowid :: "energy_db \<Rightarrow> int" where
  "largest_rowid d = fold max (map rid (rows d)) (seq d)"

text \<open>
  \<^verbatim>\<open>INSERT INTO energy_usage (usage) VALUES (?)\<close> at the instant \<open>now\<close>.
  \<open>fault\<close> is the exception, if any, with which the environment fails the database
  calls of the block (\<^verbatim>\<open>connect\<close>, \<^verbatim>\<open>execute\<close>, \<^verbatim>\<open>commit\<close>: no file, a lock, a
  full disk, a corrupt file); nothing is written then. Without a fault the statement
  itself can fail in two ways. \<^verbatim>\<open>AUTOINCREMENT\<close> takes the rowid one above the
  largest ever used and fails (\<^verbatim>\<open>SQLITE_FULL\<close>) when that was the largest 64-bit
  integer. SQLite binds a NaN as \<^verbatim>\<open>NULL\<close>, which \<^verbatim>\<open>NOT NULL\<close> refuses
  (\<^verbatim>\<open>sqlite3.IntegrityError\<close>). Otherwise the row is appended with the next id and the
  default timestamp \<^verbatim>\<open>CURRENT_TIMESTAMP\<close>.
\<close>

definition sql_insert :: "exn option \<Rightarrow> pyfloat \<Rightarrow> int \<Rightarrow> energy_db \<Rightarrow> exn + energy_db" where
  "sql_insert fault u now d =
     (case fault of
        Some e \<Rightarrow> Inl e
      | None \<Rightarrow>
          if max_rowid \<le> largest_rowid d then Inl (Sqlite3Error OperationalError)
          else if u = NaN then Inl (Sqlite3Error IntegrityError)
          else Inr \<lparr>rows = rows d @ [\<lparr>rid = largest_rowid d + 1, timestamp = now, usage = u\<rparr>],
                    seq = largest_rowid d + 1\<rparr>)"

text \<open>
  \<^verbatim>\<open>datetime('now', '-{days} days')\<close>, the cutoff of the query. For a negative
  \<open>days\<close> the f-string gives \<^verbatim>\<open>'--3 days'\<close>, which is no modifier: the result is
  \<^verbatim>\<open>NULL\<close> (here \<open>None\<close>). SQLite also answers \<^verbatim>\<open>NULL\<close> for a shift of 5373485
  days or more and for an instant outside its range, Julian day 0 to the end of the
  year 9999.
\<close>

definition julian_day_zero :: int where
  "julian_day_zero = - 210866760000"

definition max_datetime :: int where
  "max_datetime = 253402300799"

definition sqlite_datetime_now :: "int \<Rightarrow> int \<Rightarrow> int option" where
  "sqlite_datetime_now now days =
     (if days < 0 then None
      else if 5373485 \<le> days then None
      else if julian_day_zero \<le> now - 86400 * days \<and> now - 86400 * days \<le> max_datetime
      then Some (now - 86400 * days)
      else None)"

text \<open>
  The comparison of the query is between two texts, byte by byte. \<open>text_le a b\<close> is
  that order on the instants \<open>a\<close> and \<open>b\<close> the texts denote. From the year 0 on the
  texts have the digits of the year first and are ordered as the instants are; a text
  of a year before 0 starts with \<^verbatim>\<open>-\<close>, which sorts before every digit. Between two
  texts of years before 0 the four digits of the year are compared first, so the
  earlier year (the larger number) is the greater text; within one year the order is
  that of the instants. \<open>year_zero\<close> is the instant \<^verbatim>\<open>0000-01-01 00:00:00\<close> and
  \<open>year_of\<close> the year of the proleptic Gregorian calendar (with a year 0) that an
  instant lies in.
\<close>

definition year_zero :: int where
  "year_zero = - 62167219200"

definition year_of :: "int \<Rightarrow> int" where
  "year_of t =
     (let z = t div 86400 + 719468;
          era = z div 146097;
          doe = z mod 146097;
          yoe = (doe - doe div 1460 + doe div 36524 - doe div 146096) div 365;
          doy = doe - (365 * yoe + yoe div 4 - yoe div 100);
          mp = (5 * doy + 2) div 153
      in yoe + era * 400 + (if mp < 10 then 0 else 1))"

definition text_le :: "int \<Rightarrow> int \<Rightarrow> bool" where
  "text_le a b =
     (if a < year_zero \<and> b < year_zero
      then (if year_of a = year_of b then a \<le> b else year_of b < year_of a)
      else a \<le> b)"

text \<open>
  \<^verbatim>\<open>SELECT timestamp, usage FROM energy_usage WHERE timestamp >= datetime('now', ?)\<close>:
  the two columns of the rows whose text is at or after the text of the cutoff, in
  the order of the scan (the statement has no \<^verbatim>\<open>ORDER BY\<close>). A comparison with
  \<^verbatim>\<open>NULL\<close> holds for no row. The result is the data frame that pandas builds: one
  pair per row.
\<close>

type_synonym frame = "(int \<times> pyfloat) list"

definition sql_select :: "int \<Rightarrow> int \<Rightarrow> energy_db \<Rightarrow> frame" where
  "sql_select now days d =
     (case sqlite_datetime_now now days of
        None \<Rightarrow> []
      | Some cutoff \<Rightarrow>
          map (\<lambda>r. (timestamp r, usage r)) (filter (\<lambda>r. text_le cutoff (timestamp r)) (rows d)))"

subsection \<open>The world\<close>

text \<open>
  \<open>clock\<close> is the current time (seconds from the Unix epoch; taken to be an instant
  that \<^verbatim>\<open>CURRENT_TIMESTAMP\<close> can write), \<open>image_file\<close> the
  series that \<^verbatim>\<open>static/usage_plot.png\<close> shows (\<open>None\<close>: no such file), \<open>stdout\<close>
  what \<^verbatim>\<open>print\<close> wrote, and \<open>sql_log\<close> the statements of the program, one entry
  for every run of a \<^verbatim>\<open>with sqlite3.connect(...)\<close> block, whether or not the
  statement reached the store.
\<close>

datatype out_line =
    DatabaseInitialized
  | InsertedUsage pyfloat
  | InsertError exn
  | RetrieveError exn
  | VisualizeError exn

datatype sql = Insert pyfloat | Select int

record world =
  db :: energy_db
  clock :: int
  image_file :: "frame option"
  stdout :: "out_line list"
  sql_log :: "sql list"

type_synonym 'a result = "(exn + 'a) \<times> world"

text \<open>The state after the main block has run \<^verbatim>\<open>init_db()\<close> on a new file.\<close>

definition init_world :: "int \<Rightarrow> world" where
  "init_world t =
     \<lparr>db = init_db None, clock = t, image_file = None,
      stdout = [DatabaseInitialized], sql_log = []\<rparr>"

subsection \<open>\<^verbatim>\<open>insert_data\<close> and \<^verbatim>\<open>get_data\<close>\<close>

text \<open>
  \<^verbatim>\<open>insert_data\<close> runs the insert once. A \<^verbatim>\<open>sqlite3.Error\<close> is caught and
  printed, and the function returns normally; any other exception propagates.
\<close>

definition insert_data :: "exn option \<Rightarrow> pyfloat \<Rightarrow> world \<Rightarrow> unit result" where
  "insert_data fault u w =
     (let w1 = w\<lparr>sql_log := sql_log w @ [Insert u]\<rparr> in
      case sql_insert fault u (clock w) (db w) of
        Inr d \<Rightarrow> (Inr (), w1\<lparr>db := d, stdout := stdout w1 @ [InsertedUsage u]\<rparr>)
      | Inl e \<Rightarrow>
          if is_sqlite3_error e then (Inr (), w1\<lparr>stdout := stdout w1 @ [InsertError e]\<rparr>)
          else (Inl e, w1))"

text \<open>
  The \<^verbatim>\<open>try\<close> block of \<^verbatim>\<open>get_data\<close> has three steps, and the environment can
  fail the first or the last.
  \<^item> \<^verbatim>\<open>sqlite3.connect('energy.db')\<close> raises what the environment raises
    (\<open>ConnectRaises\<close>).
  \<^item> The f-string \<^verbatim>\<open>f'-{days} days'\<close> turns \<open>days\<close> into text. CPython refuses to
    convert an integer of more than 4300 digits and raises \<^verbatim>\<open>ValueError\<close>.
  \<^item> \<^verbatim>\<open>pd.read_sql_query\<close> executes the statement. When the execution raises
    (\<open>ExecuteRaises\<close>: a locked or corrupt file, a missing table), pandas catches the
    exception and raises its own \<^verbatim>\<open>pandas.errors.DatabaseError\<close> in its place.
\<close>

datatype query_fault = ConnectRaises exn | ExecuteRaises exn

definition int_max_str_digits :: nat where
  "int_max_str_digits = 4300"

definition format_days :: "int \<Rightarrow> exn + int" where
  "format_days days =
     (if 10 ^ int_max_str_digits \<le> \<bar>days\<bar> then Inl ValueError else Inr days)"

definition read_sql_query :: "query_fault option \<Rightarrow> int \<Rightarrow> int \<Rightarrow> energy_db \<Rightarrow> exn + frame" where
  "read_sql_query fault now days d =
     (case fault of
        Some (ExecuteRaises e) \<Rightarrow> Inl PandasDatabaseError
      | _ \<Rightarrow> Inr (sql_select now days d))"

definition query_block :: "query_fault option \<Rightarrow> int \<Rightarrow> int \<Rightarrow> energy_db \<Rightarrow> exn + frame" where
  "query_block fault now days d =
     (case fault of
        Some (ConnectRaises e) \<Rightarrow> Inl e
      | _ \<Rightarrow>
          (case format_days days of
             Inl e \<Rightarrow> Inl e
           | Inr n \<Rightarrow> read_sql_query fault now n d))"

text \<open>
  \<^verbatim>\<open>get_data(days=7)\<close> runs the block once. A \<^verbatim>\<open>sqlite3.Error\<close> is caught and
  printed, and an empty frame is returned; any other exception propagates.
\<close>

definition default_days :: int where
  "default_days = 7"

definition get_data :: "query_fault option \<Rightarrow> int \<Rightarrow> world \<Rightarrow> frame result" where
  "get_data fault days w =
     (let w1 = w\<lparr>sql_log := sql_log w @ [Select days]\<rparr> in
      case query_block fault (clock w) days (db w) of
        Inr df \<Rightarrow> (Inr df, w1)
      | Inl e \<Rightarrow>
          if is_sqlite3_error e then (Inr [], w1\<lparr>stdout := stdout w1 @ [RetrieveError e]\<rparr>)
          else (Inl e, w1))"

subsection \<open>The routes\<close>

datatype body = Json "(string \<times> string) list" | Html string

record response =
  status :: nat
  body :: body

definition success_response :: response where
  "success_response =
     \<lparr>status = 200,
      body = Json [(''status'', ''success''), (''message'', ''Data added successfully!'')]\<rparr>"

definition invalid_input_response :: response where
  "invalid_input_response =
     \<lparr>status = 400,
      body = Json [(''status'', ''error''),
                   (''message'', ''Invalid input! Please enter a numeric value.'')]\<rparr>"

definition no_data_response :: response where
  "no_data_response =
     \<lparr>status = 400,
      body = Json [(''status'', ''error''),
                   (''message'', ''No data available for visualization.'')]\<rparr>"

definition failed_response :: response where
  "failed_response =
     \<lparr>status = 500,
      body = Json [(''status'', ''error''),
                   (''message'', ''Failed to generate visualization.'')]\<rparr>"

definition image_path :: string where
  "image_path = ''static/usage_plot.png''"

definition chart_response :: response where
  "chart_response =
     \<lparr>status = 200, body = Json [(''status'', ''success''), (''image_path'', image_path)]\<rparr>"

definition home :: response where
  "home = \<lparr>status = 200, body = Html ''index.html''\<rparr>"

text \<open>
  \<^verbatim>\<open>submit\<close>. The form is the list of the request's fields; \<^verbatim>\<open>request.form['usage']\<close>
  is the first value under the key and raises a \<^verbatim>\<open>KeyError\<close> when there is none.
  Only \<^verbatim>\<open>ValueError\<close> is caught. An exception that escapes the function is the
  \<open>Inl\<close> result: the framework, not this program, answers the request then.
\<close>

definition submit :: "exn option \<Rightarrow> (string \<times> string) list \<Rightarrow> world \<Rightarrow> response result" where
  "submit fault form w =
     (case map_of form ''usage'' of
        None \<Rightarrow> (Inl (BadRequestKeyError ''usage''), w)
      | Some s \<Rightarrow>
          (case py_float s of
             None \<Rightarrow> (Inr invalid_input_response, w)
           | Some u \<Rightarrow>
               (case insert_data fault u w of
                  (Inr _, w') \<Rightarrow> (Inr success_response, w')
                | (Inl e, w') \<Rightarrow>
                    if is_value_error e then (Inr invalid_input_response, w')
                    else (Inl e, w'))))"

text \<open>
  The renderer (lines 86 to 97 of the source): the frame is plotted and saved to
  \<open>image_path\<close>. \<open>fault\<close> is the exception, if any, that the plotting raises; no file
  is written then.
\<close>

definition render :: "exn option \<Rightarrow> frame \<Rightarrow> world \<Rightarrow> unit result" where
  "render fault df w =
     (case fault of
        Some e \<Rightarrow> (Inl e, w)
      | None \<Rightarrow> (Inr (), w\<lparr>image_file := Some df\<rparr>))"

text \<open>
  \<^verbatim>\<open>visualize\<close>: \<^verbatim>\<open>get_data()\<close> with its default argument; an empty frame is
  answered before the renderer; every exception is caught, printed and answered with
  the status 500.
\<close>

definition visualize :: "query_fault option \<Rightarrow> exn option \<Rightarrow> world \<Rightarrow> response \<times> world" where
  "visualize qfault rfault w =
     (case get_data qfault default_days w of
        (Inl e, w1) \<Rightarrow> (failed_response, w1\<lparr>stdout := stdout w1 @ [VisualizeError e]\<rparr>)
      | (Inr df, w1) \<Rightarrow>
          if df = [] then (no_data_response, w1)
          else (case render rfault df w1 of
                  (Inl e, w2) \<Rightarrow> (failed_response, w2\<lparr>stdout := stdout w2 @ [VisualizeError e]\<rparr>)
                | (Inr _, w2) \<Rightarrow> (chart_response, w2)))"

subsection \<open>Runs of the application\<close>

text \<open>
  A request with the faults the environment answers it with. A run serves the
  requests one after the other, each at the time it arrives.
\<close>

datatype request =
    GetHome
  | PostSubmit "exn option" "(string \<times> string) list"
  | GetVisualize "query_fault option" "exn option"

fun handle :: "request \<Rightarrow> world \<Rightarrow> response result" where
  "handle GetHome w = (Inr home, w)"
| "handle (PostSubmit fault form) w = submit fault form w"
| "handle (GetVisualize qfault rfault) w =
     (case visualize qfault rfault w of (r, w') \<Rightarrow> (Inr r, w'))"

fun run :: "(int \<times> request) list \<Rightarrow> world \<Rightarrow> world" where
  "run [] w = w"
| "run ((t, r) # rs) w = run rs (snd (handle r (w\<lparr>clock := t\<rparr>)))"

definition count_readings :: "world \<Rightarrow> nat" where
  "count_readings w = length (rows (db w))"

section \<open>Properties\<close>

subsection \<open>Auxiliary facts\<close>


lemma fold_max_ge_init: "(a::int) \<le> fold max xs a"
  by (induction xs arbitrary: a) (auto intro: order_trans [OF max.cobounded2])

lemma fold_max_ge_elem: "x \<in> set xs \<Longrightarrow> (x::int) \<le> fold max xs a"
proof (induction xs arbitrary: a)
  case Nil
  then show ?case by simp
next
  case (Cons y ys)
  show ?case
  proof (cases "x = y")
    case True
    have "y \<le> max y a" by simp
    also have "\<dots> \<le> fold max ys (max y a)" by (rule fold_max_ge_init)
    finally show ?thesis using True by simp
  next
    case False
    with Cons.prems have "x \<in> set ys" by simp
    then show ?thesis using Cons.IH by simp
  qed
qed

lemma rid_le_largest_rowid: "r \<in> set (rows d) \<Longrightarrow> rid r \<le> largest_rowid d"
  unfolding largest_rowid_def by (rule fold_max_ge_elem) simp

lemma seq_le_largest_rowid: "seq d \<le> largest_rowid d"
  unfolding largest_rowid_def by (rule fold_max_ge_init)

lemma sql_insert_fault: "sql_insert (Some e) u now d = Inl e"
  by (simp add: sql_insert_def)

lemma sql_insert_ok:
  "largest_rowid d < max_rowid \<Longrightarrow> u \<noteq> NaN \<Longrightarrow>
   sql_insert None u now d =
     Inr \<lparr>rows = rows d @ [\<lparr>rid = largest_rowid d + 1, timestamp = now, usage = u\<rparr>],
          seq = largest_rowid d + 1\<rparr>"
  by (simp add: sql_insert_def)

lemma sql_insert_Inr:
  "sql_insert fault u now d = Inr d' \<Longrightarrow>
   fault = None \<and> u \<noteq> NaN \<and> largest_rowid d < max_rowid \<and>
   d' = \<lparr>rows = rows d @ [\<lparr>rid = largest_rowid d + 1, timestamp = now, usage = u\<rparr>],
         seq = largest_rowid d + 1\<rparr>"
  by (auto simp: sql_insert_def split: option.splits if_splits)

lemma sql_insert_cases:
  "(\<exists>e. sql_insert fault u now d = Inl e) \<or>
   sql_insert fault u now d =
     Inr \<lparr>rows = rows d @ [\<lparr>rid = largest_rowid d + 1, timestamp = now, usage = u\<rparr>],
          seq = largest_rowid d + 1\<rparr>"
  by (auto simp: sql_insert_def split: option.splits)

lemma insert_data_sqlite3_error:
  "sql_insert fault u (clock w) (db w) = Inl (Sqlite3Error k) \<Longrightarrow>
   insert_data fault u w =
     (Inr (), w\<lparr>sql_log := sql_log w @ [Insert u],
                stdout := stdout w @ [InsertError (Sqlite3Error k)]\<rparr>)"
  by (simp add: insert_data_def Let_def)

lemma insert_data_ok:
  "sql_insert fault u (clock w) (db w) = Inr d \<Longrightarrow>
   insert_data fault u w =
     (Inr (), w\<lparr>sql_log := sql_log w @ [Insert u], db := d,
                stdout := stdout w @ [InsertedUsage u]\<rparr>)"
  by (simp add: insert_data_def Let_def)

lemma insert_data_db:
  "db (snd (insert_data fault u w)) = db w \<or>
   db (snd (insert_data fault u w)) =
     \<lparr>rows = rows (db w) @ [\<lparr>rid = largest_rowid (db w) + 1, timestamp = clock w, usage = u\<rparr>],
      seq = largest_rowid (db w) + 1\<rparr>"
  using sql_insert_cases [of fault u "clock w" "db w"]
  by (auto simp: insert_data_def Let_def)

lemma submit_db:
  "db (snd (submit fault form w)) = db w \<or>
   (\<exists>u. db (snd (submit fault form w)) =
     \<lparr>rows = rows (db w) @ [\<lparr>rid = largest_rowid (db w) + 1, timestamp = clock w, usage = u\<rparr>],
      seq = largest_rowid (db w) + 1\<rparr>)"
proof (cases "map_of form ''usage''")
  case None
  then show ?thesis by (simp add: submit_def)
next
  case (Some s)
  show ?thesis
  proof (cases "py_float s")
    case None
    with Some show ?thesis by (simp add: submit_def)
  next
    case (Some u)
    have "db (snd (submit fault form w)) = db (snd (insert_data fault u w))"
      using \<open>map_of form ''usage'' = Some s\<close> Some
      by (simp add: submit_def split: prod.splits sum.splits)
    then show ?thesis using insert_data_db [of fault u w] by auto
  qed
qed

lemma get_data_db: "db (snd (get_data fault days w)) = db w"
  by (simp add: get_data_def Let_def split: sum.splits)

lemma get_data_sql_log: "sql_log (snd (get_data fault days w)) = sql_log w @ [Select days]"
  by (simp add: get_data_def Let_def split: sum.splits)

lemma visualize_db: "db (snd (visualize qfault rfault w)) = db w"
proof -
  obtain res w1 where g: "get_data qfault default_days w = (res, w1)"
    by (cases "get_data qfault default_days w")
  with get_data_db [of qfault default_days w] have "db w1 = db w" by simp
  with g show ?thesis
    by (cases res) (auto simp: visualize_def render_def split: option.splits)
qed

lemma small_days_format:
  assumes "\<bar>days :: int\<bar> \<le> 5373485"
  shows "\<bar>days\<bar> < 10 ^ int_max_str_digits"
proof -
  have "\<bar>days\<bar> < (10::int) ^ 7" using assms by simp
  also have "(10::int) ^ 7 \<le> 10 ^ int_max_str_digits"
    unfolding int_max_str_digits_def by (rule power_increasing) simp_all
  finally show ?thesis .
qed

lemma format_days_ok:
  "\<bar>days\<bar> < 10 ^ int_max_str_digits \<Longrightarrow> format_days days = Inr days"
  by (simp add: format_days_def)

lemma format_days_7: "format_days 7 = Inr 7"
  by (rule format_days_ok, rule small_days_format) simp

lemma query_block_ok:
  "\<bar>days\<bar> < 10 ^ int_max_str_digits \<Longrightarrow>
   query_block None now days d = Inr (sql_select now days d)"
  by (simp add: query_block_def format_days_ok read_sql_query_def)

lemma get_data_ok:
  "\<bar>days\<bar> < 10 ^ int_max_str_digits \<Longrightarrow>
   get_data None days w =
     (Inr (sql_select (clock w) days (db w)), w\<lparr>sql_log := sql_log w @ [Select days]\<rparr>)"
  by (simp add: get_data_def query_block_ok Let_def)

lemma get_data_7:
  "get_data None 7 w =
     (Inr (sql_select (clock w) 7 (db w)), w\<lparr>sql_log := sql_log w @ [Select 7]\<rparr>)"
  by (rule get_data_ok, rule small_days_format) simp

lemma text_le_from_year_zero: "year_zero \<le> c \<Longrightarrow> text_le c t = (c \<le> t)"
  by (auto simp: text_le_def)

lemma sql_select_instants:
  assumes "sqlite_datetime_now now days = Some c" and "year_zero \<le> c"
  shows "sql_select now days d =
    map (\<lambda>r. (timestamp r, usage r)) (filter (\<lambda>r. c \<le> timestamp r) (rows d))"
  using assms by (simp add: sql_select_def text_le_from_year_zero)

lemma sql_select_7_instants:
  assumes "year_zero \<le> now - 86400 * 7" and "now - 86400 * 7 \<le> max_datetime"
  shows "sql_select now 7 d =
    map (\<lambda>r. (timestamp r, usage r)) (filter (\<lambda>r. now - 86400 * 7 \<le> timestamp r) (rows d))"
proof -
  have "julian_day_zero \<le> year_zero" by (simp add: julian_day_zero_def year_zero_def)
  with assms have "sqlite_datetime_now now 7 = Some (now - 86400 * 7)"
    by (simp add: sqlite_datetime_now_def)
  then show ?thesis using assms(1) by (rule sql_select_instants)
qed

lemma visualize_no_data:
  "sql_select (clock w) 7 (db w) = [] \<Longrightarrow>
   visualize None rfault w = (no_data_response, w\<lparr>sql_log := sql_log w @ [Select 7]\<rparr>)"
  by (simp add: visualize_def default_days_def get_data_7)

lemma visualize_chart:
  "sql_select (clock w) 7 (db w) \<noteq> [] \<Longrightarrow>
   visualize None None w =
     (chart_response,
      w\<lparr>sql_log := sql_log w @ [Select 7],
        image_file := Some (sql_select (clock w) 7 (db w))\<rparr>)"
  by (simp add: visualize_def default_days_def get_data_7 render_def)


lemma submit_insert_fails:
  assumes "map_of form ''usage'' = Some s" and "py_float s = Some u"
    and "sql_insert fault u (clock w) (db w) = Inl (Sqlite3Error k)"
  shows "submit fault form w =
     (Inr success_response,
      w\<lparr>sql_log := sql_log w @ [Insert u],
        stdout := stdout w @ [InsertError (Sqlite3Error k)]\<rparr>)"
  using assms by (simp add: submit_def insert_data_sqlite3_error)

lemma submit_insert_ok:
  assumes "map_of form ''usage'' = Some s" and "py_float s = Some u"
    and "sql_insert fault u (clock w) (db w) = Inr d"
  shows "submit fault form w =
     (Inr success_response,
      w\<lparr>sql_log := sql_log w @ [Insert u], db := d,
        stdout := stdout w @ [InsertedUsage u]\<rparr>)"
  using assms by (simp add: submit_def insert_data_ok)

lemma sql_insert_refused:
  "u = NaN \<or> max_rowid \<le> largest_rowid d \<Longrightarrow> \<exists>k. sql_insert None u now d = Inl (Sqlite3Error k)"
  by (auto simp: sql_insert_def)

lemma sql_insert_storage_outcome:
  "fault = None \<or> (\<exists>k. fault = Some (Sqlite3Error k)) \<Longrightarrow>
   (\<exists>d. sql_insert fault u now d0 = Inr d) \<or> (\<exists>k. sql_insert fault u now d0 = Inl (Sqlite3Error k))"
  by (auto simp: sql_insert_def)

lemma py_float_3_5: "py_float ''3.5'' = Some (Decimal False 35 (- 1))"
  by code_simp

lemma py_float_nan: "py_float ''nan'' = Some NaN"
  by code_simp

lemma py_float_inf: "py_float ''inf'' = Some (Inf False)"
  by code_simp

lemma py_float_minus_Infinity: "py_float ''-Infinity'' = Some (Inf True)"
  by code_simp

lemma py_float_spaces: "py_float '' 3.5 '' = Some (Decimal False 35 (- 1))"
  by code_simp

lemma largest_rowid_empty: "largest_rowid empty_db = 0"
  by (simp add: largest_rowid_def empty_db_def)

lemma init_world_simps:
  "db (init_world t) = empty_db" "clock (init_world t) = t"
  "image_file (init_world t) = None" "sql_log (init_world t) = []"
  "stdout (init_world t) = [DatabaseInitialized]"
  by (simp_all add: init_world_def)

lemma submit_outcome:
  "(db (snd (submit fault form w)) = db w) \<or>
   (\<exists>u. fst (submit fault form w) = Inr success_response \<and>
        db (snd (submit fault form w)) =
          \<lparr>rows = rows (db w) @
             [\<lparr>rid = largest_rowid (db w) + 1, timestamp = clock w, usage = u\<rparr>],
           seq = largest_rowid (db w) + 1\<rparr>)"
proof (cases "map_of form ''usage''")
  case None
  then show ?thesis by (simp add: submit_def)
next
  case (Some s)
  note form = this
  show ?thesis
  proof (cases "py_float s")
    case None
    with form show ?thesis by (simp add: submit_def)
  next
    case (Some u)
    show ?thesis
    proof (cases "sql_insert fault u (clock w) (db w)")
      case (Inl e)
      then have i: "db (snd (insert_data fault u w)) = db w"
        by (simp add: insert_data_def Let_def)
      obtain res w' where p: "insert_data fault u w = (res, w')"
        by (cases "insert_data fault u w")
      with i have "db w' = db w" by simp
      then have "db (snd (submit fault form w)) = db w"
        using form Some p by (cases res) (simp_all add: submit_def)
      then show ?thesis by simp
    next
      case (Inr d)
      from sql_insert_Inr [OF Inr] submit_insert_ok [OF form Some Inr]
      show ?thesis by auto
    qed
  qed
qed

lemma handle_db:
  "db (snd (handle r w)) = db w \<or>
   (\<exists>u. db (snd (handle r w)) =
          \<lparr>rows = rows (db w) @
             [\<lparr>rid = largest_rowid (db w) + 1, timestamp = clock w, usage = u\<rparr>],
           seq = largest_rowid (db w) + 1\<rparr>)"
proof (cases r)
  case GetHome
  then show ?thesis by simp
next
  case (PostSubmit fault form)
  then show ?thesis using submit_db [of fault form w] by simp
next
  case (GetVisualize qfault rfault)
  then show ?thesis using visualize_db [of qfault rfault w]
    by (simp add: case_prod_beta)
qed

lemma ids_snoc:
  assumes "sorted_wrt (<) (map rid (rows d))"
  shows "sorted_wrt (<) (map rid (rows d @ [\<lparr>rid = largest_rowid d + 1, timestamp = t, usage = u\<rparr>]))"
proof -
  have "\<forall>r \<in> set (rows d). rid r < largest_rowid d + 1"
    using rid_le_largest_rowid [of _ d] by fastforce
  with assms show ?thesis by (simp add: sorted_wrt_append)
qed

lemma handle_ids:
  assumes "sorted_wrt (<) (map rid (rows (db w)))"
  shows "sorted_wrt (<) (map rid (rows (db (snd (handle r w)))))"
  using handle_db [of r w] ids_snoc [OF assms] assms by auto

lemma handle_rows: "\<exists>new. rows (db (snd (handle r w))) = rows (db w) @ new"
  using handle_db [of r w] by auto

lemma run_ids:
  "sorted_wrt (<) (map rid (rows (db w))) \<Longrightarrow> sorted_wrt (<) (map rid (rows (db (run reqs w))))"
proof (induction reqs arbitrary: w)
  case Nil
  then show ?case by simp
next
  case (Cons q reqs)
  obtain t r where q: "q = (t, r)" by (cases q)
  have "sorted_wrt (<) (map rid (rows (db (w\<lparr>clock := t\<rparr>))))"
    using Cons.prems by simp
  then have "sorted_wrt (<) (map rid (rows (db (snd (handle r (w\<lparr>clock := t\<rparr>))))))"
    by (rule handle_ids)
  then show ?case using Cons.IH q by simp
qed

lemma run_rows: "\<exists>new. rows (db (run reqs w)) = rows (db w) @ new"
proof (induction reqs arbitrary: w)
  case Nil
  then show ?case by simp
next
  case (Cons q reqs)
  obtain t r where q: "q = (t, r)" by (cases q)
  obtain n1 where n1: "rows (db (snd (handle r (w\<lparr>clock := t\<rparr>)))) = rows (db w) @ n1"
    using handle_rows [of r "w\<lparr>clock := t\<rparr>"] by auto
  obtain n2 where "rows (db (run reqs (snd (handle r (w\<lparr>clock := t\<rparr>))))) =
      rows (db (snd (handle r (w\<lparr>clock := t\<rparr>)))) @ n2"
    using Cons.IH by blast
  with n1 q show ?case by simp
qed

lemma submit_grows:
  assumes "count_readings (snd (submit fault form w)) = count_readings w + 1"
  shows "fst (submit fault form w) = Inr success_response \<and>
    (\<exists>u. db (snd (submit fault form w)) =
          \<lparr>rows = rows (db w) @
             [\<lparr>rid = largest_rowid (db w) + 1, timestamp = clock w, usage = u\<rparr>],
           seq = largest_rowid (db w) + 1\<rparr>)"
proof -
  have "db (snd (submit fault form w)) \<noteq> db w"
    using assms by (auto simp: count_readings_def)
  with submit_outcome [of fault form w] show ?thesis by blast
qed

subsection \<open>Input that is no number\<close>

text \<open>
  Claim C4. For every string \<open>s\<close> that does not parse as a number, a
  \<^verbatim>\<open>POST /submit\<close> with \<^verbatim>\<open>usage=s\<close> returns the body
  \<^verbatim>\<open>{status: "error", message: "Invalid input! Please enter a numeric value."}\<close>
  with the status 400, and the world is left as it was: the number of readings is
  unchanged and no insert is sent to the store, whatever the environment would have
  answered it with.
\<close>

theorem submit_rejects_non_numeric:
  assumes "map_of form ''usage'' = Some s" and "py_float s = None"
  shows "submit fault form w = (Inr invalid_input_response, w)
    \<and> status invalid_input_response = 400
    \<and> body invalid_input_response =
        Json [(''status'', ''error''),
              (''message'', ''Invalid input! Please enter a numeric value.'')]
    \<and> count_readings (snd (submit fault form w)) = count_readings w
    \<and> sql_log (snd (submit fault form w)) = sql_log w"
  using assms by (simp add: submit_def invalid_input_response_def)

lemma py_float_abc: "py_float ''abc'' = None"
  by code_simp

theorem submit_rejects_non_numeric_witness:
  "submit None [(''usage'', ''abc'')] (init_world 0) = (Inr invalid_input_response, init_world 0)
    \<and> count_readings (snd (submit None [(''usage'', ''abc'')] (init_world 0))) = 0"
proof -
  have m: "map_of [(''usage'', ''abc'')] ''usage'' = Some ''abc''" by simp
  have c: "count_readings (init_world 0) = 0"
    by (simp add: count_readings_def init_world_def empty_db_def)
  from submit_rejects_non_numeric [OF m py_float_abc, of None "init_world 0"] c
  show ?thesis by simp
qed

subsection \<open>A request without the field\<close>

text \<open>
  Claim C9. For every \<^verbatim>\<open>POST /submit\<close> whose form has no field \<^verbatim>\<open>usage\<close>, the
  lookup \<^verbatim>\<open>request.form['usage']\<close> raises a \<^verbatim>\<open>KeyError\<close> that \<^verbatim>\<open>submit\<close> does
  not catch: the handler returns neither the success body nor the error body of its
  own, and the number of readings is unchanged. (What the framework makes of the
  escaped exception is not part of the program.)
\<close>

theorem submit_missing_field:
  assumes "map_of form ''usage'' = None"
  shows "submit fault form w = (Inl (BadRequestKeyError ''usage''), w)
    \<and> fst (submit fault form w) \<noteq> Inr success_response
    \<and> fst (submit fault form w) \<noteq> Inr invalid_input_response
    \<and> count_readings (snd (submit fault form w)) = count_readings w"
  using assms by (simp add: submit_def)

theorem submit_missing_field_witness:
  "submit None [] (init_world 0) = (Inl (BadRequestKeyError ''usage''), init_world 0)"
proof -
  have m: "map_of ([] :: (string \<times> string) list) ''usage'' = None" by simp
  from submit_missing_field [OF m, of None "init_world 0"] show ?thesis by simp
qed

subsection \<open>A storage error in the query\<close>

text \<open>
  Claim C6 says that a query failing with a storage error makes \<^verbatim>\<open>get_data\<close>
  return an empty frame and \<^verbatim>\<open>GET /visualize\<close> answer "no data". The code reaches
  that only for a failure of \<^verbatim>\<open>sqlite3.connect\<close>. When the execution of the
  statement fails, pandas raises \<^verbatim>\<open>pandas.errors.DatabaseError\<close> in place of the
  \<^verbatim>\<open>sqlite3.Error\<close>, \<^verbatim>\<open>except sqlite3.Error\<close> does not match, the exception leaves
  \<^verbatim>\<open>get_data\<close>, and \<^verbatim>\<open>visualize\<close> answers with the status 500. The theorem is the
  behaviour of the code at both failures.
\<close>

theorem get_data_execute_error_escapes:
  "get_data (Some (ExecuteRaises e)) 7 w =
     (Inl PandasDatabaseError, w\<lparr>sql_log := sql_log w @ [Select 7]\<rparr>)
   \<and> visualize (Some (ExecuteRaises e)) rfault w =
     (failed_response,
      w\<lparr>sql_log := sql_log w @ [Select 7],
        stdout := stdout w @ [VisualizeError PandasDatabaseError]\<rparr>)
   \<and> status failed_response = 500
   \<and> get_data (Some (ConnectRaises (Sqlite3Error k))) days w =
     (Inr [], w\<lparr>sql_log := sql_log w @ [Select days],
                stdout := stdout w @ [RetrieveError (Sqlite3Error k)]\<rparr>)
   \<and> visualize (Some (ConnectRaises (Sqlite3Error k))) rfault w =
     (no_data_response, w\<lparr>sql_log := sql_log w @ [Select 7],
                stdout := stdout w @ [RetrieveError (Sqlite3Error k)]\<rparr>)"
proof -
  note f = format_days_7
  have g: "get_data (Some (ExecuteRaises e)) 7 w =
     (Inl PandasDatabaseError, w\<lparr>sql_log := sql_log w @ [Select 7]\<rparr>)"
    by (simp add: get_data_def query_block_def read_sql_query_def f Let_def)
  have c: "get_data (Some (ConnectRaises (Sqlite3Error k))) days w =
     (Inr [], w\<lparr>sql_log := sql_log w @ [Select days],
                stdout := stdout w @ [RetrieveError (Sqlite3Error k)]\<rparr>)" for days
    by (simp add: get_data_def query_block_def Let_def)
  show ?thesis
    using g c [of days] c [of 7]
    by (simp add: visualize_def default_days_def failed_response_def)
qed

theorem get_data_execute_error_escapes_witness:
  "fst (visualize (Some (ExecuteRaises (Sqlite3Error OperationalError))) None
      \<lparr>db = \<lparr>rows = [\<lparr>rid = 1, timestamp = 999000, usage = Decimal False 5 0\<rparr>], seq = 1\<rparr>,
       clock = 1000000, image_file = None, stdout = [], sql_log = []\<rparr>)
     = failed_response
   \<and> fst (visualize None None
      \<lparr>db = \<lparr>rows = [\<lparr>rid = 1, timestamp = 999000, usage = Decimal False 5 0\<rparr>], seq = 1\<rparr>,
       clock = 1000000, image_file = None, stdout = [], sql_log = []\<rparr>)
     = chart_response
   \<and> failed_response \<noteq> no_data_response"
proof -
  let ?w = "\<lparr>db = \<lparr>rows = [\<lparr>rid = 1, timestamp = 999000, usage = Decimal False 5 0\<rparr>], seq = 1\<rparr>,
       clock = 1000000, image_file = None, stdout = [], sql_log = []\<rparr>"
  have "sql_select (clock ?w) 7 (db ?w) = [(999000, Decimal False 5 0)]"
    by (simp add: sql_select_7_instants year_zero_def max_datetime_def)
  then have "fst (visualize None None ?w) = chart_response"
    by (simp add: visualize_chart)
  moreover have "failed_response \<noteq> no_data_response"
    by (simp add: failed_response_def no_data_response_def)
  ultimately show ?thesis
    using get_data_execute_error_escapes [of "Sqlite3Error OperationalError" ?w None]
    by simp
qed

subsection \<open>No reading in the window\<close>

text \<open>
  Claim C5. When the store holds no reading in the window of the query, that is,
  when the query of the last seven days selects no row, \<^verbatim>\<open>GET /visualize\<close> returns
  the body \<^verbatim>\<open>{status: "error", message: "No data available for visualization."}\<close>
  with the status 400, whatever the renderer would have done: it is not run, and the
  chart file is what it was. The query selects no row when the table is empty, and,
  seven days before now being in the year 0 or later, when every reading is older
  than seven days.
\<close>

theorem visualize_empty_window:
  "(sql_select (clock w) 7 (db w) = [] \<longrightarrow>
      visualize None rfault w = (no_data_response, w\<lparr>sql_log := sql_log w @ [Select 7]\<rparr>)
    \<and> image_file (snd (visualize None rfault w)) = image_file w)
   \<and> (rows (db w) = [] \<longrightarrow> sql_select (clock w) 7 (db w) = [])
   \<and> (year_zero \<le> clock w - 86400 * 7
      \<and> (\<forall>r \<in> set (rows (db w)). timestamp r < clock w - 86400 * 7) \<longrightarrow>
        sql_select (clock w) 7 (db w) = [])
   \<and> status no_data_response = 400
   \<and> body no_data_response =
        Json [(''status'', ''error''), (''message'', ''No data available for visualization.'')]"
proof (intro conjI impI)
  assume e: "sql_select (clock w) 7 (db w) = []"
  show "visualize None rfault w = (no_data_response, w\<lparr>sql_log := sql_log w @ [Select 7]\<rparr>)"
    by (rule visualize_no_data [OF e])
  then show "image_file (snd (visualize None rfault w)) = image_file w" by simp
next
  assume "rows (db w) = []"
  then show "sql_select (clock w) 7 (db w) = []"
    by (simp add: sql_select_def split: option.splits)
next
  assume h: "year_zero \<le> clock w - 86400 * 7
      \<and> (\<forall>r \<in> set (rows (db w)). timestamp r < clock w - 86400 * 7)"
  show "sql_select (clock w) 7 (db w) = []"
  proof (cases "sqlite_datetime_now (clock w) 7")
    case None
    then show ?thesis by (simp add: sql_select_def)
  next
    case (Some c)
    then have c: "c = clock w - 86400 * 7"
      by (simp add: sqlite_datetime_now_def split: if_splits)
    with h have "filter (\<lambda>r. c \<le> timestamp r) (rows (db w)) = []"
      by (auto simp: filter_empty_conv)
    with sql_select_instants [OF Some] h c show ?thesis by simp
  qed
qed (simp_all add: no_data_response_def)

theorem visualize_empty_window_witness:
  "visualize None None (init_world 0) =
     (no_data_response, (init_world 0)\<lparr>sql_log := [Select 7]\<rparr>)
   \<and> visualize None None
      \<lparr>db = \<lparr>rows = [\<lparr>rid = 1, timestamp = 100000, usage = Decimal False 5 0\<rparr>], seq = 1\<rparr>,
       clock = 1000000, image_file = None, stdout = [], sql_log = []\<rparr>
     = (no_data_response,
      \<lparr>db = \<lparr>rows = [\<lparr>rid = 1, timestamp = 100000, usage = Decimal False 5 0\<rparr>], seq = 1\<rparr>,
       clock = 1000000, image_file = None, stdout = [], sql_log = [Select 7]\<rparr>)"
proof -
  let ?w = "\<lparr>db = \<lparr>rows = [\<lparr>rid = 1, timestamp = 100000, usage = Decimal False 5 0\<rparr>], seq = 1\<rparr>,
       clock = 1000000, image_file = None, stdout = [], sql_log = []\<rparr>"
  have e: "rows (db (init_world 0)) = []" by (simp add: init_world_simps empty_db_def)
  have o: "year_zero \<le> clock ?w - 86400 * 7
      \<and> (\<forall>r \<in> set (rows (db ?w)). timestamp r < clock ?w - 86400 * 7)"
    by (simp add: year_zero_def)
  from visualize_empty_window [of "init_world 0" None] e
  have 1: "visualize None None (init_world 0) =
     (no_data_response, (init_world 0)\<lparr>sql_log := [Select 7]\<rparr>)"
    by (simp add: init_world_simps)
  from visualize_empty_window [of ?w None] o
  have 2: "visualize None None ?w = (no_data_response, ?w\<lparr>sql_log := sql_log ?w @ [Select 7]\<rparr>)"
    by blast
  from 1 2 show ?thesis by simp
qed

subsection \<open>A storage error in the insert\<close>

text \<open>
  Claim C1 says that \<^verbatim>\<open>POST /submit\<close> surfaces a storage error of the insert as a
  failure response. It does not: at the form \<^verbatim>\<open>usage=3.5\<close>, with the insert failing
  with a \<^verbatim>\<open>sqlite3.OperationalError\<close>, the route returns the success acknowledgment
  with the status 200.
\<close>

theorem submit_storage_error_counterexample:
  "py_float ''3.5'' = Some (Decimal False 35 (- 1))
   \<and> fst (submit (Some (Sqlite3Error OperationalError)) [(''usage'', ''3.5'')] (init_world 0))
       = Inr success_response
   \<and> status success_response = 200
   \<and> body success_response =
       Json [(''status'', ''success''), (''message'', ''Data added successfully!'')]"
proof -
  have "submit (Some (Sqlite3Error OperationalError)) [(''usage'', ''3.5'')] (init_world 0) =
     (Inr success_response,
      (init_world 0)\<lparr>sql_log := sql_log (init_world 0) @ [Insert (Decimal False 35 (- 1))],
        stdout := stdout (init_world 0) @ [InsertError (Sqlite3Error OperationalError)]\<rparr>)"
    by (rule submit_insert_fails [where s = "''3.5''"]) (simp_all add: py_float_3_5 sql_insert_fault)
  then show ?thesis by (simp add: py_float_3_5 success_response_def)
qed

text \<open>
  Claim C1, amended. For every \<^verbatim>\<open>POST /submit\<close> whose field \<^verbatim>\<open>usage\<close> parses as a
  number, if the insert fails with a \<^verbatim>\<open>sqlite3.Error\<close>, then \<^verbatim>\<open>insert_data\<close> catches
  and prints it, the route returns the success acknowledgment (status 200), no reading
  is stored, and the insert has been sent once: there is no retry.
\<close>

theorem submit_storage_error_swallowed:
  assumes "map_of form ''usage'' = Some s" and "py_float s = Some u"
    and "sql_insert fault u (clock w) (db w) = Inl (Sqlite3Error k)"
  shows "submit fault form w =
     (Inr success_response,
      w\<lparr>sql_log := sql_log w @ [Insert u],
        stdout := stdout w @ [InsertError (Sqlite3Error k)]\<rparr>)
    \<and> status success_response = 200
    \<and> db (snd (submit fault form w)) = db w
    \<and> count_readings (snd (submit fault form w)) = count_readings w
    \<and> sql_log (snd (submit fault form w)) = sql_log w @ [Insert u]"
  using submit_insert_fails [OF assms]
  by (simp add: count_readings_def success_response_def)

theorem submit_storage_error_swallowed_witness:
  "submit (Some (Sqlite3Error OperationalError)) [(''usage'', ''3.5'')] (init_world 0) =
     (Inr success_response,
      (init_world 0)\<lparr>sql_log := [Insert (Decimal False 35 (- 1))],
        stdout := [DatabaseInitialized, InsertError (Sqlite3Error OperationalError)]\<rparr>)
   \<and> count_readings
        (snd (submit (Some (Sqlite3Error OperationalError)) [(''usage'', ''3.5'')] (init_world 0)))
       = 0"
proof -
  have m: "map_of [(''usage'', ''3.5'')] ''usage'' = Some ''3.5''" by simp
  have f: "sql_insert (Some (Sqlite3Error OperationalError)) (Decimal False 35 (- 1))
             (clock (init_world 0)) (db (init_world 0)) = Inl (Sqlite3Error OperationalError)"
    by (rule sql_insert_fault)
  have c: "count_readings (init_world 0) = 0"
    by (simp add: count_readings_def init_world_simps empty_db_def)
  from submit_storage_error_swallowed [OF m py_float_3_5 f] c
  show ?thesis by (simp add: init_world_simps count_readings_def)
qed

subsection \<open>Numeric input\<close>

text \<open>
  Claim C3 says that every numeric string is answered with the success response and
  adds exactly one reading. It does not for \<^verbatim>\<open>usage=nan\<close>: \<^verbatim>\<open>float\<close> accepts the
  string, the insert is refused by \<^verbatim>\<open>NOT NULL\<close>, the route still returns the success
  response, and the number of readings is what it was. Nor does it for \<^verbatim>\<open>usage=3.5\<close>
  when the store fails the insert with a \<^verbatim>\<open>sqlite3.OperationalError\<close>.
\<close>

theorem submit_nan_counterexample:
  "py_float ''nan'' = Some NaN
   \<and> fst (submit None [(''usage'', ''nan'')] (init_world 0)) = Inr success_response
   \<and> count_readings (snd (submit None [(''usage'', ''nan'')] (init_world 0)))
       = count_readings (init_world 0)
   \<and> py_float ''3.5'' = Some (Decimal False 35 (- 1))
   \<and> fst (submit (Some (Sqlite3Error OperationalError)) [(''usage'', ''3.5'')] (init_world 0))
       = Inr success_response
   \<and> count_readings
        (snd (submit (Some (Sqlite3Error OperationalError)) [(''usage'', ''3.5'')] (init_world 0)))
       = count_readings (init_world 0)"
proof -
  have "submit (Some (Sqlite3Error OperationalError)) [(''usage'', ''3.5'')] (init_world 0) =
     (Inr success_response,
      (init_world 0)\<lparr>sql_log := sql_log (init_world 0) @ [Insert (Decimal False 35 (- 1))],
        stdout := stdout (init_world 0) @ [InsertError (Sqlite3Error OperationalError)]\<rparr>)"
    by (rule submit_insert_fails [where s = "''3.5''"]) (simp_all add: py_float_3_5 sql_insert_fault)
  then have faulty:
    "fst (submit (Some (Sqlite3Error OperationalError)) [(''usage'', ''3.5'')] (init_world 0))
       = Inr success_response
     \<and> count_readings
        (snd (submit (Some (Sqlite3Error OperationalError)) [(''usage'', ''3.5'')] (init_world 0)))
       = count_readings (init_world 0)"
    by (simp add: count_readings_def)
  have "sql_insert None NaN (clock (init_world 0)) (db (init_world 0))
          = Inl (Sqlite3Error IntegrityError)"
    by (simp add: sql_insert_def init_world_simps largest_rowid_empty max_rowid_def)
  then have "submit None [(''usage'', ''nan'')] (init_world 0) =
     (Inr success_response,
      (init_world 0)\<lparr>sql_log := sql_log (init_world 0) @ [Insert NaN],
        stdout := stdout (init_world 0) @ [InsertError (Sqlite3Error IntegrityError)]\<rparr>)"
    by (intro submit_insert_fails [where s = "''nan''"]) (simp_all add: py_float_nan)
  then show ?thesis using faulty by (simp add: py_float_nan py_float_3_5 count_readings_def)
qed

text \<open>
  Claim C3, amended. For every string \<open>s\<close> that parses as a number \<open>u\<close>, a
  \<^verbatim>\<open>POST /submit\<close> with \<^verbatim>\<open>usage=s\<close> returns the success response both when the
  insert succeeds and when it fails with a \<^verbatim>\<open>sqlite3.Error\<close>. When it succeeds (no
  fault of the store, \<open>u\<close> is not a NaN, and the rowids are not used up) the table gains
  exactly one reading, with the next id, the current time and the value \<open>u\<close>. When it
  fails with a storage error (a fault of the store, or \<open>u\<close> a NaN, or the rowids used
  up) the table is unchanged.
\<close>

theorem submit_numeric:
  assumes "map_of form ''usage'' = Some s" and "py_float s = Some u"
  shows "(fault = None \<and> u \<noteq> NaN \<and> largest_rowid (db w) < max_rowid \<longrightarrow>
            fst (submit fault form w) = Inr success_response
          \<and> rows (db (snd (submit fault form w))) =
              rows (db w) @ [\<lparr>rid = largest_rowid (db w) + 1, timestamp = clock w, usage = u\<rparr>]
          \<and> count_readings (snd (submit fault form w)) = count_readings w + 1)
    \<and> ((fault = None \<and> (u = NaN \<or> max_rowid \<le> largest_rowid (db w)))
         \<or> (\<exists>k. fault = Some (Sqlite3Error k)) \<longrightarrow>
            fst (submit fault form w) = Inr success_response
          \<and> db (snd (submit fault form w)) = db w
          \<and> count_readings (snd (submit fault form w)) = count_readings w)"
proof (intro conjI impI)
  assume ok: "fault = None \<and> u \<noteq> NaN \<and> largest_rowid (db w) < max_rowid"
  let ?d = "\<lparr>rows = rows (db w) @
               [\<lparr>rid = largest_rowid (db w) + 1, timestamp = clock w, usage = u\<rparr>],
             seq = largest_rowid (db w) + 1\<rparr>"
  have "sql_insert fault u (clock w) (db w) = Inr ?d"
    using ok by (simp add: sql_insert_ok)
  note r = submit_insert_ok [OF assms this]
  show "fst (submit fault form w) = Inr success_response" using r by simp
  show "rows (db (snd (submit fault form w))) =
      rows (db w) @ [\<lparr>rid = largest_rowid (db w) + 1, timestamp = clock w, usage = u\<rparr>]"
    using r by simp
  show "count_readings (snd (submit fault form w)) = count_readings w + 1"
    using r by (simp add: count_readings_def)
next
  assume "(fault = None \<and> (u = NaN \<or> max_rowid \<le> largest_rowid (db w)))
         \<or> (\<exists>k. fault = Some (Sqlite3Error k))"
  then obtain k where "sql_insert fault u (clock w) (db w) = Inl (Sqlite3Error k)"
    using sql_insert_refused [of u "db w" "clock w"] sql_insert_fault by blast
  note r = submit_insert_fails [OF assms this]
  show "fst (submit fault form w) = Inr success_response" using r by simp
  show "db (snd (submit fault form w)) = db w" using r by simp
  show "count_readings (snd (submit fault form w)) = count_readings w"
    using r by (simp add: count_readings_def)
qed

theorem submit_numeric_witness:
  "fst (submit None [(''usage'', ''3.5'')] (init_world 0)) = Inr success_response
   \<and> rows (db (snd (submit None [(''usage'', ''3.5'')] (init_world 0)))) =
       [\<lparr>rid = 1, timestamp = 0, usage = Decimal False 35 (- 1)\<rparr>]
   \<and> count_readings (snd (submit None [(''usage'', ''3.5'')] (init_world 0))) = 1"
proof -
  have m: "map_of [(''usage'', ''3.5'')] ''usage'' = Some ''3.5''" by simp
  have c: "count_readings (init_world 0) = 0"
    by (simp add: count_readings_def init_world_simps empty_db_def)
  have l: "largest_rowid (db (init_world 0)) < max_rowid"
    by (simp add: init_world_simps largest_rowid_empty max_rowid_def)
  have r: "rows empty_db = []" by (simp add: empty_db_def)
  from submit_numeric [OF m py_float_3_5, of None "init_world 0"] c l
  show ?thesis by (simp add: init_world_simps largest_rowid_empty r)
qed

subsection \<open>No check of the value\<close>

text \<open>
  Claim C10. The validation of \<^verbatim>\<open>POST /submit\<close> accepts every string that
  \<^verbatim>\<open>float\<close> accepts, among them \<^verbatim>\<open>inf\<close>, \<^verbatim>\<open>-Infinity\<close>, \<^verbatim>\<open>nan\<close> and a number
  between spaces: the route returns the success response (unless the store raises
  something that is no \<^verbatim>\<open>sqlite3.Error\<close>), and the value goes to the insert as
  parsed, with no check that it is finite or in a range.
\<close>

theorem submit_accepts_every_float:
  assumes "map_of form ''usage'' = Some s" and "py_float s = Some u"
    and "fault = None \<or> (\<exists>k. fault = Some (Sqlite3Error k))"
  shows "fst (submit fault form w) = Inr success_response
    \<and> sql_log (snd (submit fault form w)) = sql_log w @ [Insert u]
    \<and> py_float ''inf'' = Some (Inf False)
    \<and> py_float ''-Infinity'' = Some (Inf True)
    \<and> py_float ''nan'' = Some NaN
    \<and> py_float '' 3.5 '' = Some (Decimal False 35 (- 1))"
proof -
  consider d where "sql_insert fault u (clock w) (db w) = Inr d"
    | k where "sql_insert fault u (clock w) (db w) = Inl (Sqlite3Error k)"
    using sql_insert_storage_outcome [OF assms(3), of u "clock w" "db w"] by blast
  then have "fst (submit fault form w) = Inr success_response
    \<and> sql_log (snd (submit fault form w)) = sql_log w @ [Insert u]"
  proof cases
    case 1
    from submit_insert_ok [OF assms(1,2) this] show ?thesis by simp
  next
    case 2
    from submit_insert_fails [OF assms(1,2) this] show ?thesis by simp
  qed
  then show ?thesis
    by (simp add: py_float_inf py_float_minus_Infinity py_float_nan py_float_spaces)
qed

theorem submit_accepts_every_float_witness:
  "fst (submit None [(''usage'', ''-Infinity'')] (init_world 0)) = Inr success_response
   \<and> sql_log (snd (submit None [(''usage'', ''-Infinity'')] (init_world 0))) = [Insert (Inf True)]"
proof -
  have m: "map_of [(''usage'', ''-Infinity'')] ''usage'' = Some ''-Infinity''" by simp
  have f: "(None :: exn option) = None \<or> (\<exists>k. (None :: exn option) = Some (Sqlite3Error k))"
    by simp
  from submit_accepts_every_float [OF m py_float_minus_Infinity f, of "init_world 0"]
  show ?thesis by (simp add: init_world_simps)
qed


subsection \<open>The window and the order of \<^verbatim>\<open>get_data\<close>\<close>

text \<open>
  Claim C2 says that for every stored table and every integer \<open>days\<close> the result of
  \<^verbatim>\<open>get_data\<close> is exactly the readings at or after \<open>now - days\<close>, in ascending order
  of the timestamp. Neither holds for every input. The query has no \<^verbatim>\<open>ORDER BY\<close>:
  a table whose second row is older than its first comes back in the order of the
  table. For \<open>days = -1\<close> the modifier is \<^verbatim>\<open>'--1 days'\<close> and the result is empty,
  also when a row lies in the window. For \<open>days = 5373485\<close> the cutoff is \<^verbatim>\<open>NULL\<close>
  and the result is empty, though the row is in the window.
\<close>

theorem get_data_order_counterexample:
  "fst (get_data None 7
      \<lparr>db = \<lparr>rows = [\<lparr>rid = 1, timestamp = 1000000, usage = Decimal False 5 0\<rparr>,
                     \<lparr>rid = 2, timestamp = 999000, usage = Decimal False 6 0\<rparr>],
             seq = 2\<rparr>,
       clock = 1000000, image_file = None, stdout = [], sql_log = []\<rparr>)
     = Inr [(1000000, Decimal False 5 0), (999000, Decimal False 6 0)]
   \<and> \<not> sorted (map fst [(1000000 :: int, Decimal False 5 0), (999000, Decimal False 6 0)])
   \<and> fst (get_data None (- 1)
      \<lparr>db = \<lparr>rows = [\<lparr>rid = 1, timestamp = 1090000, usage = Decimal False 5 0\<rparr>], seq = 1\<rparr>,
       clock = 1000000, image_file = None, stdout = [], sql_log = []\<rparr>)
     = Inr []
   \<and> (1000000 :: int) - 86400 * (- 1) \<le> 1090000
   \<and> fst (get_data None 5373485
      \<lparr>db = \<lparr>rows = [\<lparr>rid = 1, timestamp = 1000000, usage = Decimal False 5 0\<rparr>], seq = 1\<rparr>,
       clock = 1000000, image_file = None, stdout = [], sql_log = []\<rparr>)
     = Inr []
   \<and> (1000000 :: int) - 86400 * 5373485 \<le> 1000000"
proof -
  have a: "\<bar>7 :: int\<bar> < 10 ^ int_max_str_digits" by (rule small_days_format) simp
  have b: "\<bar>- 1 :: int\<bar> < 10 ^ int_max_str_digits" by (rule small_days_format) simp
  have c: "\<bar>5373485 :: int\<bar> < 10 ^ int_max_str_digits" by (rule small_days_format) simp
  show ?thesis
    by (simp add: get_data_ok [OF a] get_data_ok [OF b] get_data_ok [OF c] sql_select_def
        sqlite_datetime_now_def julian_day_zero_def max_datetime_def text_le_def year_zero_def)
qed

text \<open>
  Claim C2, amended. For every stored table and every integer \<open>days\<close> from 0 to
  5373484 whose cutoff \<open>now - days\<close> lies in the years 0 to 9999, \<^verbatim>\<open>get_data\<close> (the
  store raising nothing) returns exactly the readings whose timestamp is at least
  \<open>now - days\<close>, as pairs of timestamp and usage, in the order of the table
  (ascending id). For a negative \<open>days\<close> of at most 4300 digits (\<open>int_max_str_digits\<close>)
  the result is empty. For every \<open>days\<close> of at most 4300 digits, the result is in
  ascending order of the timestamp whenever the timestamps of the table are in
  ascending order of the id. For a \<open>days\<close> of more than 4300 digits \<^verbatim>\<open>get_data\<close>
  raises \<^verbatim>\<open>ValueError\<close>.
\<close>

theorem get_data_window:
  "(0 \<le> days \<and> days < 5373485 \<and> year_zero \<le> clock w - 86400 * days
      \<and> clock w - 86400 * days \<le> max_datetime \<longrightarrow>
      fst (get_data None days w) =
        Inr (map (\<lambda>r. (timestamp r, usage r))
               (filter (\<lambda>r. clock w - 86400 * days \<le> timestamp r) (rows (db w)))))
   \<and> (days < 0 \<and> \<bar>days\<bar> < 10 ^ int_max_str_digits \<longrightarrow>
        fst (get_data None days w) = Inr [])
   \<and> (\<bar>days\<bar> < 10 ^ int_max_str_digits \<and> sorted (map timestamp (rows (db w))) \<longrightarrow>
        (\<exists>f. fst (get_data None days w) = Inr f \<and> sorted (map fst f)))
   \<and> (10 ^ int_max_str_digits \<le> \<bar>days\<bar> \<longrightarrow> fst (get_data None days w) = Inl ValueError)"
proof (intro conjI impI)
  assume h: "0 \<le> days \<and> days < 5373485 \<and> year_zero \<le> clock w - 86400 * days
      \<and> clock w - 86400 * days \<le> max_datetime"
  have "julian_day_zero \<le> year_zero" by (simp add: julian_day_zero_def year_zero_def)
  with h have "sqlite_datetime_now (clock w) days = Some (clock w - 86400 * days)"
    by (simp add: sqlite_datetime_now_def)
  then have "sql_select (clock w) days (db w) =
      map (\<lambda>r. (timestamp r, usage r))
        (filter (\<lambda>r. clock w - 86400 * days \<le> timestamp r) (rows (db w)))"
    using h by (intro sql_select_instants) simp_all
  moreover have "\<bar>days\<bar> < 10 ^ int_max_str_digits"
    using h by (intro small_days_format) simp
  ultimately show "fst (get_data None days w) =
        Inr (map (\<lambda>r. (timestamp r, usage r))
               (filter (\<lambda>r. clock w - 86400 * days \<le> timestamp r) (rows (db w))))"
    by (simp add: get_data_ok)
next
  assume h: "days < 0 \<and> \<bar>days\<bar> < 10 ^ int_max_str_digits"
  then have "\<bar>days\<bar> < 10 ^ int_max_str_digits" by (rule conjunct2)
  moreover have "sql_select (clock w) days (db w) = []"
    using conjunct1 [OF h] by (simp add: sql_select_def sqlite_datetime_now_def)
  ultimately show "fst (get_data None days w) = Inr []"
    by (simp add: get_data_ok)
next
  assume h: "\<bar>days\<bar> < 10 ^ int_max_str_digits \<and> sorted (map timestamp (rows (db w)))"
  then have s: "sorted (map timestamp (rows (db w)))" by (rule conjunct2)
  from h have d: "\<bar>days\<bar> < 10 ^ int_max_str_digits" by (rule conjunct1)
  have "sorted (map fst (sql_select (clock w) days (db w)))"
  proof (cases "sqlite_datetime_now (clock w) days")
    case None
    then show ?thesis by (simp add: sql_select_def)
  next
    case (Some c)
    have "map fst (map (\<lambda>r. (timestamp r, usage r))
            (filter (\<lambda>r. text_le c (timestamp r)) (rows (db w))))
        = map timestamp (filter (\<lambda>r. text_le c (timestamp r)) (rows (db w)))"
      by (simp add: comp_def)
    moreover have "sorted (map timestamp (filter (\<lambda>r. text_le c (timestamp r)) (rows (db w))))"
      by (rule sorted_filter [OF s])
    ultimately have "sorted (map fst (map (\<lambda>r. (timestamp r, usage r))
        (filter (\<lambda>r. text_le c (timestamp r)) (rows (db w)))))"
      by (simp only:)
    with Some show ?thesis by (simp only: sql_select_def option.case)
  qed
  then show "\<exists>f. fst (get_data None days w) = Inr f \<and> sorted (map fst f)"
    by (simp add: get_data_ok [OF d])
next
  assume "10 ^ int_max_str_digits \<le> \<bar>days\<bar>"
  then have "format_days days = Inl ValueError"
    by (simp add: format_days_def)
  then show "fst (get_data None days w) = Inl ValueError"
    by (simp add: get_data_def query_block_def Let_def)
qed

theorem get_data_window_witness:
  "fst (get_data None 7
      \<lparr>db = \<lparr>rows = [\<lparr>rid = 1, timestamp = 100000, usage = Decimal False 5 0\<rparr>,
                     \<lparr>rid = 2, timestamp = 900000, usage = Decimal False 6 0\<rparr>,
                     \<lparr>rid = 3, timestamp = 999000, usage = Decimal False 7 0\<rparr>],
             seq = 3\<rparr>,
       clock = 1000000, image_file = None, stdout = [], sql_log = []\<rparr>)
     = Inr [(900000, Decimal False 6 0), (999000, Decimal False 7 0)]"
  using get_data_window [of 7
      "\<lparr>db = \<lparr>rows = [\<lparr>rid = 1, timestamp = 100000, usage = Decimal False 5 0\<rparr>,
                     \<lparr>rid = 2, timestamp = 900000, usage = Decimal False 6 0\<rparr>,
                     \<lparr>rid = 3, timestamp = 999000, usage = Decimal False 7 0\<rparr>],
             seq = 3\<rparr>,
       clock = 1000000, image_file = None, stdout = [], sql_log = []\<rparr>"]
  by (simp add: year_zero_def max_datetime_def)

subsection \<open>The window of \<^verbatim>\<open>visualize\<close>\<close>

text \<open>
  Claim C7. \<^verbatim>\<open>GET /visualize\<close> always queries with the default window: the one
  statement it sends is the query of \<^verbatim>\<open>get_data\<close> with \<open>days = 7\<close>, whatever the
  environment answers. So (the store and the renderer raising nothing, and seven days
  before now lying in the years 0 to 9999) only the readings at or after seven days
  before now count: without one the answer is the "no data" error, otherwise exactly
  these readings are charted.
\<close>

theorem visualize_seven_days:
  "sql_log (snd (visualize qfault rfault w)) = sql_log w @ [Select 7]
   \<and> (year_zero \<le> clock w - 86400 * 7 \<and> clock w - 86400 * 7 \<le> max_datetime \<longrightarrow>
        visualize None None w =
          (let window = map (\<lambda>r. (timestamp r, usage r))
                          (filter (\<lambda>r. clock w - 86400 * 7 \<le> timestamp r) (rows (db w)))
           in if window = [] then (no_data_response, w\<lparr>sql_log := sql_log w @ [Select 7]\<rparr>)
              else (chart_response,
                    w\<lparr>sql_log := sql_log w @ [Select 7], image_file := Some window\<rparr>)))"
proof (intro conjI impI)
  obtain res w1 where g: "get_data qfault default_days w = (res, w1)"
    by (cases "get_data qfault default_days w")
  with get_data_sql_log [of qfault default_days w]
  have "sql_log w1 = sql_log w @ [Select 7]" by (simp add: default_days_def)
  with g show "sql_log (snd (visualize qfault rfault w)) = sql_log w @ [Select 7]"
    by (cases res) (auto simp: visualize_def render_def split: option.splits)
next
  assume "year_zero \<le> clock w - 86400 * 7 \<and> clock w - 86400 * 7 \<le> max_datetime"
  then have s: "sql_select (clock w) 7 (db w) =
      map (\<lambda>r. (timestamp r, usage r))
        (filter (\<lambda>r. clock w - 86400 * 7 \<le> timestamp r) (rows (db w)))"
    by (intro sql_select_7_instants) simp_all
  show "visualize None None w =
          (let window = map (\<lambda>r. (timestamp r, usage r))
                          (filter (\<lambda>r. clock w - 86400 * 7 \<le> timestamp r) (rows (db w)))
           in if window = [] then (no_data_response, w\<lparr>sql_log := sql_log w @ [Select 7]\<rparr>)
              else (chart_response,
                    w\<lparr>sql_log := sql_log w @ [Select 7], image_file := Some window\<rparr>))"
  proof (cases "sql_select (clock w) 7 (db w) = []")
    case True
    from visualize_no_data [OF True] True s show ?thesis by (simp add: Let_def)
  next
    case False
    from visualize_chart [OF False] False s show ?thesis by (simp add: Let_def)
  qed
qed

theorem visualize_seven_days_witness:
  "visualize None None
      \<lparr>db = \<lparr>rows = [\<lparr>rid = 1, timestamp = 100000, usage = Decimal False 5 0\<rparr>,
                     \<lparr>rid = 2, timestamp = 900000, usage = Decimal False 6 0\<rparr>],
             seq = 2\<rparr>,
       clock = 1000000, image_file = None, stdout = [], sql_log = []\<rparr>
     = (chart_response,
      \<lparr>db = \<lparr>rows = [\<lparr>rid = 1, timestamp = 100000, usage = Decimal False 5 0\<rparr>,
                     \<lparr>rid = 2, timestamp = 900000, usage = Decimal False 6 0\<rparr>],
             seq = 2\<rparr>,
       clock = 1000000, image_file = Some [(900000, Decimal False 6 0)], stdout = [],
       sql_log = [Select 7]\<rparr>)"
  using visualize_seven_days [of None None
      "\<lparr>db = \<lparr>rows = [\<lparr>rid = 1, timestamp = 100000, usage = Decimal False 5 0\<rparr>,
                     \<lparr>rid = 2, timestamp = 900000, usage = Decimal False 6 0\<rparr>],
             seq = 2\<rparr>,
       clock = 1000000, image_file = None, stdout = [], sql_log = []\<rparr>"]
  by (simp add: year_zero_def max_datetime_def)

subsection \<open>Identifiers\<close>

text \<open>
  Claim C8. The ids are given by the store (\<^verbatim>\<open>AUTOINCREMENT\<close>: one above the
  largest rowid ever used). Over every run of the application, from the new table or
  from any table whose ids increase, the ids of the table increase strictly in the
  order of insertion, so they are unique; the rows already there stay as they are,
  new ones are only appended. And of two submissions in a row that each store a
  reading, whatever their values and the times they arrive at, both are answered with
  the success response and the second reading gets a larger id than the first, which
  is larger than every id before.
\<close>

theorem ids_unique_and_increasing:
  "(sorted_wrt (<) (map rid (rows (db w))) \<longrightarrow>
      sorted_wrt (<) (map rid (rows (db (run reqs w))))
    \<and> distinct (map rid (rows (db (run reqs w)))))
   \<and> sorted_wrt (<) (map rid (rows (db (run reqs (init_world t)))))
   \<and> (\<exists>new. rows (db (run reqs w)) = rows (db w) @ new)
   \<and> (count_readings (snd (submit f1 form1 w)) = count_readings w + 1
      \<and> count_readings (snd (submit f2 form2 ((snd (submit f1 form1 w))\<lparr>clock := t2\<rparr>)))
          = count_readings w + 2 \<longrightarrow>
        fst (submit f1 form1 w) = Inr success_response
      \<and> fst (submit f2 form2 ((snd (submit f1 form1 w))\<lparr>clock := t2\<rparr>)) = Inr success_response
      \<and> (\<exists>a b. rows (db (snd (submit f2 form2 ((snd (submit f1 form1 w))\<lparr>clock := t2\<rparr>))))
                  = rows (db w) @ [a, b]
              \<and> rid a < rid b \<and> (\<forall>r \<in> set (rows (db w)). rid r < rid a)))"
proof (intro conjI impI)
  assume s: "sorted_wrt (<) (map rid (rows (db w)))"
  show "sorted_wrt (<) (map rid (rows (db (run reqs w))))"
    by (rule run_ids [OF s])
  then show "distinct (map rid (rows (db (run reqs w))))"
    by (simp add: strict_sorted_iff)
next
  have "sorted_wrt (<) (map rid (rows (db (init_world t))))"
    by (simp add: init_world_simps empty_db_def)
  then show "sorted_wrt (<) (map rid (rows (db (run reqs (init_world t)))))"
    by (rule run_ids)
next
  show "\<exists>new. rows (db (run reqs w)) = rows (db w) @ new"
    by (rule run_rows)
next
  let ?w1 = "snd (submit f1 form1 w)"
  let ?w1' = "?w1\<lparr>clock := t2\<rparr>"
  let ?w2 = "snd (submit f2 form2 ?w1')"
  assume h: "count_readings ?w1 = count_readings w + 1
      \<and> count_readings ?w2 = count_readings w + 2"
  then have c1: "count_readings ?w1 = count_readings w + 1" by simp
  have "count_readings ?w1' = count_readings ?w1" by (simp add: count_readings_def)
  with h have c2: "count_readings ?w2 = count_readings ?w1' + 1" by simp
  from submit_grows [OF c1] obtain u1 where
    r1: "fst (submit f1 form1 w) = Inr success_response" and
    d1: "db ?w1 = \<lparr>rows = rows (db w) @
             [\<lparr>rid = largest_rowid (db w) + 1, timestamp = clock w, usage = u1\<rparr>],
           seq = largest_rowid (db w) + 1\<rparr>"
    by blast
  from submit_grows [OF c2] obtain u2 where
    r2: "fst (submit f2 form2 ?w1') = Inr success_response" and
    d2: "db ?w2 = \<lparr>rows = rows (db ?w1') @
             [\<lparr>rid = largest_rowid (db ?w1') + 1, timestamp = clock ?w1', usage = u2\<rparr>],
           seq = largest_rowid (db ?w1') + 1\<rparr>"
    by blast
  show "fst (submit f1 form1 w) = Inr success_response" by (rule r1)
  show "fst (submit f2 form2 ?w1') = Inr success_response" by (rule r2)
  let ?a = "\<lparr>rid = largest_rowid (db w) + 1, timestamp = clock w, usage = u1\<rparr>"
  let ?b = "\<lparr>rid = largest_rowid (db ?w1') + 1, timestamp = clock ?w1', usage = u2\<rparr>"
  have rows1: "rows (db ?w1') = rows (db w) @ [?a]" using d1 by simp
  have rows2: "rows (db ?w2) = rows (db w) @ [?a, ?b]" using d2 rows1 by simp
  have "?a \<in> set (rows (db ?w1'))" using rows1 by simp
  then have "rid ?a \<le> largest_rowid (db ?w1')" by (rule rid_le_largest_rowid)
  then have ab: "rid ?a < rid ?b" by simp
  have old: "\<forall>r \<in> set (rows (db w)). rid r < rid ?a"
    using rid_le_largest_rowid [of _ "db w"] by fastforce
  from rows2 ab old
  show "\<exists>a b. rows (db ?w2) = rows (db w) @ [a, b] \<and> rid a < rid b
      \<and> (\<forall>r \<in> set (rows (db w)). rid r < rid a)"
    by blast
qed

lemma submit_3_5_init:
  "submit None [(''usage'', ''3.5'')] (init_world 0) =
     (Inr success_response,
      \<lparr>db = \<lparr>rows = [\<lparr>rid = 1, timestamp = 0, usage = Decimal False 35 (- 1)\<rparr>], seq = 1\<rparr>,
       clock = 0, image_file = None,
       stdout = [DatabaseInitialized, InsertedUsage (Decimal False 35 (- 1))],
       sql_log = [Insert (Decimal False 35 (- 1))]\<rparr>)"
  by (simp add: submit_def py_float_3_5 insert_data_def sql_insert_def largest_rowid_def
      init_world_def empty_db_def max_rowid_def Let_def)

lemma submit_3_5_second:
  "submit None [(''usage'', ''3.5'')]
      \<lparr>db = \<lparr>rows = [\<lparr>rid = 1, timestamp = 0, usage = Decimal False 35 (- 1)\<rparr>], seq = 1\<rparr>,
       clock = 5, image_file = None,
       stdout = [DatabaseInitialized, InsertedUsage (Decimal False 35 (- 1))],
       sql_log = [Insert (Decimal False 35 (- 1))]\<rparr> =
     (Inr success_response,
      \<lparr>db = \<lparr>rows = [\<lparr>rid = 1, timestamp = 0, usage = Decimal False 35 (- 1)\<rparr>,
                     \<lparr>rid = 2, timestamp = 5, usage = Decimal False 35 (- 1)\<rparr>], seq = 2\<rparr>,
       clock = 5, image_file = None,
       stdout = [DatabaseInitialized, InsertedUsage (Decimal False 35 (- 1)),
                 InsertedUsage (Decimal False 35 (- 1))],
       sql_log = [Insert (Decimal False 35 (- 1)), Insert (Decimal False 35 (- 1))]\<rparr>)"
  by (simp add: submit_def py_float_3_5 insert_data_def sql_insert_def largest_rowid_def
      max_rowid_def Let_def)

theorem ids_unique_and_increasing_witness:
  "map rid (rows (db (snd (submit None [(''usage'', ''3.5'')]
      ((snd (submit None [(''usage'', ''3.5'')] (init_world 0)))\<lparr>clock := 5\<rparr>))))) = [1, 2]
   \<and> (\<exists>a b. rows (db (snd (submit None [(''usage'', ''3.5'')]
      ((snd (submit None [(''usage'', ''3.5'')] (init_world 0)))\<lparr>clock := 5\<rparr>)))) = [a, b]
        \<and> rid a < rid b)
   \<and> sorted_wrt (<) (map rid (rows (db (run
        [(0, PostSubmit None [(''usage'', ''3.5'')]), (5, PostSubmit None [(''usage'', ''3.5'')])]
        (init_world 0)))))"
proof -
  have c0: "count_readings (init_world 0) = 0"
    by (simp add: count_readings_def init_world_simps empty_db_def)
  have e: "rows (db (init_world 0)) = []" by (simp add: init_world_simps empty_db_def)
  from ids_unique_and_increasing [of "init_world 0"
      "[(0, PostSubmit None [(''usage'', ''3.5'')]), (5, PostSubmit None [(''usage'', ''3.5'')])]"
      0 None "[(''usage'', ''3.5'')]" None "[(''usage'', ''3.5'')]" 5]
  show ?thesis
    by (simp add: submit_3_5_init submit_3_5_second c0 e count_readings_def)
qed

end
